theory Spec2Isabelle
  imports Main "HOL-Library.Word"
begin

section \<open>The voice system of App.js as a state machine\<close>

text \<open>
  The model covers the voice system of \<^verbatim>\<open>src/App.js\<close> (lines 22 to 176): the module
  variables, \<^verbatim>\<open>speakWithOpenAI\<close>, \<^verbatim>\<open>loadBrowserVoices\<close>, \<^verbatim>\<open>speakBrowser\<close>,
  \<^verbatim>\<open>cancelAllSpeech\<close> and \<^verbatim>\<open>speak\<close>.

  JavaScript runs one task at a time. An \<^verbatim>\<open>async\<close> function runs until its next
  \<^verbatim>\<open>await\<close> on something the environment settles later (the debounce timer, the
  \<^verbatim>\<open>fetch\<close>, \<^verbatim>\<open>response.json()\<close>, \<^verbatim>\<open>response.blob()\<close>); there it is suspended, and
  the environment resumes it in a later task. The model therefore keeps the suspended
  calls in the state, and one \<open>event\<close> is one task: a call from the user interface, or
  the environment settling what a suspended call waits for. When \<^verbatim>\<open>speakWithOpenAI\<close>
  returns, the \<^verbatim>\<open>await speakWithOpenAI(...)\<close> in \<^verbatim>\<open>speak\<close> resumes in a microtask of
  the same task, before any other task runs; the model takes the return and the
  resumption together.
\<close>

subsection \<open>Strings\<close>

text \<open>
  A JavaScript string is a sequence of UTF-16 code units. The regular expressions of the
  source have no \<^verbatim>\<open>u\<close> flag, so a character class is a set of code units: an emoji
  beyond the basic plane contributes its two surrogates separately.
\<close>

type_synonym jsstring = "16 word list"

definition ascii :: "string \<Rightarrow> jsstring" where
  "ascii cs = map of_char cs"

text \<open>\<^verbatim>\<open>String.prototype.trim\<close> strips WhiteSpace and LineTerminator code units.\<close>

definition is_ws :: "16 word \<Rightarrow> bool" where
  "is_ws c \<longleftrightarrow>
     c = 0x09 \<or> c = 0x0A \<or> c = 0x0B \<or> c = 0x0C \<or> c = 0x0D \<or> c = 0x20 \<or>
     c = 0xA0 \<or> c = 0x1680 \<or> (0x2000 \<le> c \<and> c \<le> 0x200A) \<or>
     c = 0x2028 \<or> c = 0x2029 \<or> c = 0x202F \<or> c = 0x205F \<or> c = 0x3000 \<or> c = 0xFEFF"

definition trim :: "jsstring \<Rightarrow> jsstring" where
  "trim s = rev (dropWhile is_ws (rev (dropWhile is_ws s)))"

definition startsWith :: "jsstring \<Rightarrow> jsstring \<Rightarrow> bool" where
  "startsWith s p \<longleftrightarrow> take (length p) s = p"

fun includes_str :: "jsstring \<Rightarrow> jsstring \<Rightarrow> bool" where
  "includes_str [] p \<longleftrightarrow> p = []"
| "includes_str (c # cs) p \<longleftrightarrow> startsWith (c # cs) p \<or> includes_str cs p"

text \<open>
  The class of line 49, as code units: the surrogates of the emoji
  and the three basic-plane units U+26A1, U+2728 and U+FE0F.
\<close>

definition remote_class :: "16 word \<Rightarrow> bool" where
  "remote_class c \<longleftrightarrow> c \<in> {0xD83D, 0xDD25, 0xDCAA, 0x26A1, 0xD83C, 0xDFAF, 0xDFC6, 0xDFCB,
     0xFE0F, 0xD83E, 0xDD57, 0xDE34, 0xDD16, 0xDCCA, 0x2728, 0xDF89, 0xDFC5, 0xDCCB,
     0xDCC5, 0xDD12, 0xDF99, 0xDF1F, 0xDEA8, 0xDEB8, 0xDF3F, 0xDCD6}"

text \<open>The class of line 121: \<^verbatim>\<open>*\<close>, \<^verbatim>\<open>#\<close> and the code units of six emoji.\<close>

definition local_class :: "16 word \<Rightarrow> bool" where
  "local_class c \<longleftrightarrow> c \<in> {0x2A, 0x23, 0xD83D, 0xDD25, 0xDCAA, 0x26A1, 0xD83C, 0xDFAF,
     0xDFC6, 0xDFCB, 0xFE0F}"

text \<open>\<^verbatim>\<open>.replace(/\*\*/g, '')\<close>: the matches are found left to right and do not overlap.\<close>

fun remove_bold :: "jsstring \<Rightarrow> jsstring" where
  "remove_bold (a # b # cs) =
     (if a = 0x2A \<and> b = 0x2A then remove_bold cs else a # remove_bold (b # cs))"
| "remove_bold cs = cs"

text \<open>\<^verbatim>\<open>.replace(/\n/g, r)\<close> for a replacement string \<open>r\<close>.\<close>

definition replace_newlines :: "jsstring \<Rightarrow> jsstring \<Rightarrow> jsstring" where
  "replace_newlines r s = concat (map (\<lambda>c. if c = 0x0A then r else [c]) s)"

text \<open>Lines 48 to 53: the text that is sent to the remote service.\<close>

definition remote_clean :: "jsstring \<Rightarrow> jsstring" where
  "remote_clean text =
     take 1000 (trim (filter (\<lambda>c. c \<le> 0x7F)
       (replace_newlines [0x2E, 0x20] (remove_bold (filter (\<lambda>c. \<not> remote_class c) text)))))"

text \<open>Line 121: the text that is given to the browser's speech synthesis.\<close>

definition local_clean :: "jsstring \<Rightarrow> jsstring" where
  "local_clean text =
     trim (replace_newlines [0x20] (filter (\<lambda>c. \<not> local_class c) text))"

subsection \<open>Values, voices, effects and the state\<close>

text \<open>
  \<^verbatim>\<open>speak\<close> is called with a JavaScript value. Its callers pass strings; the guard of
  line 158 also decides what happens for the other values.
\<close>

datatype jsval = JUndefined | JNull | JBoolean bool | JNumber int | JString jsstring

datatype js_error = TypeError

record voice =
  voiceURI :: jsstring
  name :: jsstring
  lang :: jsstring
  localService :: bool

text \<open>
  What the code does to its environment, in order. The first component of
  \<open>InvokeRemote\<close>, \<open>InvokeLocal\<close>, \<open>Fetch\<close> and \<open>AudioPlay\<close> is the \<^verbatim>\<open>mySeq\<close> of the
  \<^verbatim>\<open>speak\<close> call that caused the effect; it identifies the call and is not a value of
  the program.
\<close>

datatype effect =
    InvokeRemote nat jsstring
  | InvokeLocal nat jsstring
  | Fetch nat jsstring jsstring jsstring
  | AudioPlay nat nat
  | AudioPause nat
  | RevokeURL nat
  | SynthCancel
  | SynthSpeak jsstring "voice option"
  | SetTimeout nat
  | ClearTimeout nat
  | ConsoleWarn
  | Rejected js_error

fun caller_of :: "effect \<Rightarrow> nat option" where
  "caller_of (InvokeRemote c _) = Some c"
| "caller_of (InvokeLocal c _) = Some c"
| "caller_of (Fetch c _ _ _) = Some c"
| "caller_of (AudioPlay c _) = Some c"
| "caller_of _ = None"

text \<open>
  The module variables keep their names. \<open>speakSeq\<close> is a JavaScript number that starts
  at 0 and changes by \<^verbatim>\<open>++\<close> only; such a number is an exact integer up to \<open>2^53\<close>, a
  count of calls that no session reaches, so it is a natural number here.
  Timers, requests and audio elements are named by fresh numbers. A suspended call is
  the pair of its \<^verbatim>\<open>text\<close> and its \<^verbatim>\<open>mySeq\<close> (\<^verbatim>\<open>speakWithOpenAI\<close> is passed the same
  two values), filed under what it waits for.
\<close>

type_synonym suspended = "jsstring \<times> nat"

record state =
  openaiApiKey :: jsstring
  openaiVoice :: jsstring
  currentTTSAudio :: "nat option"
  browserVoices :: "voice list"
  selectedVoiceId :: jsstring
  speakSeq :: nat
  pendingSpeakTimer :: "nat option"
  hasSpeechSynthesis :: bool
  timers :: "nat \<rightharpoonup> suspended"
  fetches :: "nat \<rightharpoonup> suspended"
  jsons :: "nat \<rightharpoonup> suspended"
  blobs :: "nat \<rightharpoonup> suspended"
  audios :: "nat set"
  nextId :: nat
  trace :: "effect list"

definition emit :: "effect list \<Rightarrow> state \<Rightarrow> state" where
  "emit es s = s\<lparr>trace := trace s @ es\<rparr>"

text \<open>
  The module variables as their declarations initialise them: the key and the voice
  come from \<^verbatim>\<open>localStorage\<close>, \<open>has\<close> says whether \<^verbatim>\<open>speechSynthesis\<close> is in
  \<^verbatim>\<open>window\<close>. The call of \<^verbatim>\<open>loadBrowserVoices\<close> at line 114 is a first
  \<open>VoicesChanged\<close> task.
\<close>

definition init_state :: "jsstring \<Rightarrow> jsstring \<Rightarrow> bool \<Rightarrow> state" where
  "init_state key v has =
     \<lparr>openaiApiKey = key, openaiVoice = v, currentTTSAudio = None, browserVoices = [],
      selectedVoiceId = [], speakSeq = 0, pendingSpeakTimer = None,
      hasSpeechSynthesis = has, timers = Map.empty, fetches = Map.empty,
      jsons = Map.empty, blobs = Map.empty, audios = {}, nextId = 0, trace = []\<rparr>"

subsection \<open>Configuration\<close>

definition setOAIKey :: "jsstring \<Rightarrow> state \<Rightarrow> state" where
  "setOAIKey key s = s\<lparr>openaiApiKey := trim key\<rparr>"

definition setOAIVoice :: "jsstring \<Rightarrow> state \<Rightarrow> state" where
  "setOAIVoice v s = s\<lparr>openaiVoice := v\<rparr>"

definition english :: "voice \<Rightarrow> bool" where
  "english v \<longleftrightarrow> startsWith (lang v) (ascii ''en'')"

definition preferred_voice :: "voice \<Rightarrow> bool" where
  "preferred_voice v \<longleftrightarrow>
     english v \<and>
     (includes_str (name v) (ascii ''Samantha'') \<or> includes_str (name v) (ascii ''Karen'') \<or>
      includes_str (name v) (ascii ''Google US'') \<or> includes_str (name v) (ascii ''Google UK'') \<or>
      includes_str (name v) (ascii ''Microsoft Aria'') \<or>
      includes_str (name v) (ascii ''Microsoft Jenny'') \<or>
      includes_str (name v) (ascii ''Natural'') \<or> (\<not> localService v \<and> english v))"

text \<open>Lines 99 to 111; \<open>available\<close> is what \<^verbatim>\<open>getVoices()\<close> returns.\<close>

definition loadBrowserVoices :: "voice list \<Rightarrow> state \<Rightarrow> state" where
  "loadBrowserVoices available s =
     (if \<not> hasSpeechSynthesis s then s
      else let s1 = s\<lparr>browserVoices := available\<rparr> in
        (case find preferred_voice available of
           None \<Rightarrow> s1
         | Some p \<Rightarrow> if selectedVoiceId s1 = [] then s1\<lparr>selectedVoiceId := voiceURI p\<rparr> else s1))"

subsection \<open>The local backend\<close>

text \<open>Lines 124 to 127. \<^verbatim>\<open>find\<close> and \<^verbatim>\<open>browserVoices[0]\<close> give \<^verbatim>\<open>undefined\<close>, here \<open>None\<close>,
  when there is no such voice.\<close>

definition pick_voice :: "jsstring \<Rightarrow> voice list \<Rightarrow> voice option" where
  "pick_voice sel vs =
     (if sel \<noteq> [] then find (\<lambda>v. voiceURI v = sel) vs
      else (case find (\<lambda>v. english v \<and> \<not> localService v) vs of
              Some v \<Rightarrow> Some v
            | None \<Rightarrow> (case find english vs of
                        Some v \<Rightarrow> Some v
                      | None \<Rightarrow> (case vs of [] \<Rightarrow> None | v # _ \<Rightarrow> Some v))))"

text \<open>Lines 118 to 133. The utterance is recorded with its text and the voice set on it.\<close>

definition speakBrowser :: "jsstring \<Rightarrow> state \<Rightarrow> state" where
  "speakBrowser text s =
     (if \<not> hasSpeechSynthesis s then s
      else let s1 = emit [SynthCancel] s; clean = local_clean text in
        if clean = [] then s1
        else emit [SynthSpeak clean (pick_voice (selectedVoiceId s1) (browserVoices s1))] s1)"

subsection \<open>The controller and the remote backend\<close>

text \<open>Lines 143 to 155.\<close>

definition cancelAllSpeech :: "state \<Rightarrow> state" where
  "cancelAllSpeech s =
     (let s1 = s\<lparr>speakSeq := speakSeq s + 1\<rparr>;
          s2 = (case pendingSpeakTimer s1 of
                  None \<Rightarrow> s1
                | Some t \<Rightarrow> emit [ClearTimeout t]
                    (s1\<lparr>timers := (timers s1)(t := None), pendingSpeakTimer := None\<rparr>));
          s3 = (if hasSpeechSynthesis s2 then emit [SynthCancel] s2 else s2)
      in (case currentTTSAudio s3 of
            None \<Rightarrow> s3
          | Some a \<Rightarrow> (emit [AudioPause a, RevokeURL a] s3)\<lparr>currentTTSAudio := None\<rparr>))"

text \<open>
  Lines 46 to 69 of \<^verbatim>\<open>speakWithOpenAI\<close>: either it returns at once (\<open>Some\<close> of the
  returned boolean), or it issues the request and is suspended at the \<^verbatim>\<open>fetch\<close>.
\<close>

definition speakWithOpenAI :: "jsstring \<Rightarrow> nat \<Rightarrow> state \<Rightarrow> bool option \<times> state" where
  "speakWithOpenAI text seq s =
     (if openaiApiKey s = [] then (Some False, s)
      else let clean = remote_clean text in
        if clean = [] then (Some False, s)
        else (None, emit [Fetch seq clean (openaiVoice s) (openaiApiKey s)]
                (s\<lparr>fetches := (fetches s)(nextId s \<mapsto> (text, seq)), nextId := nextId s + 1\<rparr>)))"

text \<open>Lines 174 and 175 of \<^verbatim>\<open>speak\<close>, once \<^verbatim>\<open>speakWithOpenAI\<close> has returned \<open>usedAI\<close>.\<close>

definition speak_resume :: "bool \<Rightarrow> jsstring \<Rightarrow> nat \<Rightarrow> state \<Rightarrow> state" where
  "speak_resume usedAI text mySeq s =
     (if speakSeq s \<noteq> mySeq then s
      else if \<not> usedAI then speakBrowser text (emit [InvokeLocal mySeq text] s)
      else s)"

text \<open>Lines 171 to 175 of \<^verbatim>\<open>speak\<close>, when the debounce promise has been resolved.\<close>

definition after_debounce :: "jsstring \<Rightarrow> nat \<Rightarrow> state \<Rightarrow> state" where
  "after_debounce text mySeq s =
     (if speakSeq s \<noteq> mySeq then s
      else (case speakWithOpenAI text mySeq (emit [InvokeRemote mySeq text] s) of
              (Some usedAI, s') \<Rightarrow> speak_resume usedAI text mySeq s'
            | (None, s') \<Rightarrow> s'))"

text \<open>
  Lines 157 to 170 of \<^verbatim>\<open>speak\<close>, up to the debounce. \<^verbatim>\<open>text?.trim()\<close> is
  \<^verbatim>\<open>undefined\<close> for \<^verbatim>\<open>null\<close> and \<^verbatim>\<open>undefined\<close>; a boolean or a number has no
  \<^verbatim>\<open>trim\<close> method, the call of it raises a TypeError, and the promise that the
  \<^verbatim>\<open>async\<close> function returns is rejected with it (\<open>Inl\<close>).
\<close>

definition speak :: "jsval \<Rightarrow> state \<Rightarrow> js_error + state" where
  "speak v s =
     (case v of
        JUndefined \<Rightarrow> Inr s
      | JNull \<Rightarrow> Inr s
      | JBoolean _ \<Rightarrow> Inl TypeError
      | JNumber _ \<Rightarrow> Inl TypeError
      | JString text \<Rightarrow>
          if trim text = [] then Inr s
          else let s1 = cancelAllSpeech s; mySeq = speakSeq s1; t = nextId s1 in
            Inr (emit [SetTimeout t]
              (s1\<lparr>timers := (timers s1)(t \<mapsto> (text, mySeq)), pendingSpeakTimer := Some t,
                  nextId := t + 1\<rparr>)))"

subsection \<open>Tasks\<close>

datatype event =
    CallSpeak jsval
  | CallCancelAll
  | CallSetOAIKey jsstring
  | CallSetOAIVoice jsstring
  | VoicesChanged "voice list"
  | TimerFired nat
  | FetchResolved nat bool
  | FetchRejected nat
  | JsonSettled nat bool
  | BlobResolved nat
  | BlobRejected nat
  | AudioEnded nat
  | AudioError nat
  | PlayRejected nat

text \<open>Lines 166 to 169 and what they resume: the callback of timer \<open>t\<close>.\<close>

definition timer_fired :: "nat \<Rightarrow> state \<Rightarrow> state" where
  "timer_fired t s =
     (case timers s t of
        None \<Rightarrow> s
      | Some (text, mySeq) \<Rightarrow>
          after_debounce text mySeq (s\<lparr>timers := (timers s)(t := None), pendingSpeakTimer := None\<rparr>))"

text \<open>Lines 72 to 79: the response of request \<open>f\<close> has arrived, \<open>ok\<close> is \<^verbatim>\<open>response.ok\<close>.\<close>

definition fetch_resolved :: "nat \<Rightarrow> bool \<Rightarrow> state \<Rightarrow> state" where
  "fetch_resolved f ok s =
     (case fetches s f of
        None \<Rightarrow> s
      | Some (text, seq) \<Rightarrow>
          let s1 = s\<lparr>fetches := (fetches s)(f := None)\<rparr> in
          if speakSeq s1 \<noteq> seq then speak_resume True text seq s1
          else if \<not> ok then s1\<lparr>jsons := (jsons s1)(f \<mapsto> (text, seq))\<rparr>
          else s1\<lparr>blobs := (blobs s1)(f \<mapsto> (text, seq))\<rparr>)"

text \<open>Lines 89 to 91: the request failed, the \<^verbatim>\<open>catch\<close> logs and returns \<^verbatim>\<open>false\<close>.\<close>

definition fetch_rejected :: "nat \<Rightarrow> state \<Rightarrow> state" where
  "fetch_rejected f s =
     (case fetches s f of
        None \<Rightarrow> s
      | Some (text, seq) \<Rightarrow>
          speak_resume False text seq (emit [ConsoleWarn] (s\<lparr>fetches := (fetches s)(f := None)\<rparr>)))"

text \<open>Lines 75 and 76: the error body has been read (\<open>parsed\<close>, and logged) or not.\<close>

definition json_settled :: "nat \<Rightarrow> bool \<Rightarrow> state \<Rightarrow> state" where
  "json_settled f parsed s =
     (case jsons s f of
        None \<Rightarrow> s
      | Some (text, seq) \<Rightarrow>
          let s1 = s\<lparr>jsons := (jsons s)(f := None)\<rparr>;
              s2 = (if parsed then emit [ConsoleWarn] s1 else s1)
          in speak_resume False text seq s2)"

text \<open>Lines 80 to 88: the payload has been read.\<close>

definition blob_resolved :: "nat \<Rightarrow> state \<Rightarrow> state" where
  "blob_resolved f s =
     (case blobs s f of
        None \<Rightarrow> s
      | Some (text, seq) \<Rightarrow>
          let s1 = s\<lparr>blobs := (blobs s)(f := None)\<rparr> in
          if speakSeq s1 \<noteq> seq then speak_resume True text seq s1
          else let a = nextId s1 in
            speak_resume True text seq
              (emit [AudioPlay seq a]
                (s1\<lparr>currentTTSAudio := Some a, audios := insert a (audios s1), nextId := a + 1\<rparr>)))"

definition blob_rejected :: "nat \<Rightarrow> state \<Rightarrow> state" where
  "blob_rejected f s =
     (case blobs s f of
        None \<Rightarrow> s
      | Some (text, seq) \<Rightarrow>
          speak_resume False text seq (emit [ConsoleWarn] (s\<lparr>blobs := (blobs s)(f := None)\<rparr>)))"

text \<open>Lines 85 and 86: \<^verbatim>\<open>onended\<close> and \<^verbatim>\<open>onerror\<close> of audio element \<open>a\<close>.\<close>

definition audio_over :: "nat \<Rightarrow> state \<Rightarrow> state" where
  "audio_over a s =
     (if a \<in> audios s then (emit [RevokeURL a] s)\<lparr>currentTTSAudio := None\<rparr> else s)"

text \<open>Line 87: the promise of \<^verbatim>\<open>audio.play()\<close> was rejected.\<close>

definition play_rejected :: "nat \<Rightarrow> state \<Rightarrow> state" where
  "play_rejected a s = (if a \<in> audios s then emit [ConsoleWarn] s else s)"

text \<open>
  One task. The callers of \<^verbatim>\<open>speak\<close> do not await the promise, so a rejection
  changes nothing and is only recorded.
\<close>

fun step :: "event \<Rightarrow> state \<Rightarrow> state" where
  "step (CallSpeak v) s = (case speak v s of Inl e \<Rightarrow> emit [Rejected e] s | Inr s' \<Rightarrow> s')"
| "step CallCancelAll s = cancelAllSpeech s"
| "step (CallSetOAIKey k) s = setOAIKey k s"
| "step (CallSetOAIVoice v) s = setOAIVoice v s"
| "step (VoicesChanged vs) s = loadBrowserVoices vs s"
| "step (TimerFired t) s = timer_fired t s"
| "step (FetchResolved f ok) s = fetch_resolved f ok s"
| "step (FetchRejected f) s = fetch_rejected f s"
| "step (JsonSettled f parsed) s = json_settled f parsed s"
| "step (BlobResolved f) s = blob_resolved f s"
| "step (BlobRejected f) s = blob_rejected f s"
| "step (AudioEnded a) s = audio_over a s"
| "step (AudioError a) s = audio_over a s"
| "step (PlayRejected a) s = play_rejected a s"

fun run :: "event list \<Rightarrow> state \<Rightarrow> state" where
  "run [] s = s"
| "run (e # es) s = run es (step e s)"

subsection \<open>Notions used to state the properties\<close>

text \<open>
  The tasks that supersede what is pending: \<^verbatim>\<open>cancelAllSpeech()\<close>, and \<^verbatim>\<open>speak\<close> with
  a text that is not blank.
\<close>

definition supersedes :: "event \<Rightarrow> bool" where
  "supersedes e =
     (case e of
        CallCancelAll \<Rightarrow> True
      | CallSpeak (JString text) \<Rightarrow> trim text \<noteq> []
      | _ \<Rightarrow> False)"

text \<open>Some call with \<^verbatim>\<open>mySeq\<close> \<open>T\<close> is suspended in \<open>m\<close>.\<close>

definition waits_for :: "(nat \<rightharpoonup> suspended) \<Rightarrow> nat \<Rightarrow> bool" where
  "waits_for m T \<longleftrightarrow> (\<exists>i text. m i = Some (text, T))"

definition in_flight :: "nat \<Rightarrow> state \<Rightarrow> bool" where
  "in_flight T s \<longleftrightarrow> waits_for (fetches s) T \<or> waits_for (jsons s) T \<or> waits_for (blobs s) T"

text \<open>
  The \<^verbatim>\<open>speak\<close> call with \<^verbatim>\<open>mySeq\<close> \<open>T\<close> has got as far as a backend: it has called
  \<^verbatim>\<open>speakWithOpenAI\<close> or \<^verbatim>\<open>speakBrowser\<close>, sent a request or played audio.
\<close>

definition reached_backend :: "nat \<Rightarrow> state \<Rightarrow> bool" where
  "reached_backend T s \<longleftrightarrow> (\<exists>e\<in>set (trace s). caller_of e = Some T)"

text \<open>
  What holds in every state the program reaches: the only timer that is scheduled is
  the one \<^verbatim>\<open>pendingSpeakTimer\<close> names, and nothing belongs to a token of the future.
\<close>

definition only_pending :: "state \<Rightarrow> bool" where
  "only_pending s \<longleftrightarrow> (\<forall>t x. timers s t = Some x \<longrightarrow> pendingSpeakTimer s = Some t)"

definition no_future :: "state \<Rightarrow> bool" where
  "no_future s \<longleftrightarrow>
     (\<forall>T. speakSeq s < T \<longrightarrow>
        \<not> waits_for (timers s) T \<and> \<not> in_flight T s \<and> \<not> reached_backend T s)"

definition state_ok :: "state \<Rightarrow> bool" where
  "state_ok s \<longleftrightarrow> only_pending s \<and> no_future s"



section \<open>Properties\<close>

subsection \<open>What the handlers amount to\<close>

lemma emit_Nil [simp]: "emit [] s = s"
  by (simp add: emit_def)

lemma run_append: "run (es @ fs) s = run fs (run es s)"
  by (induction es arbitrary: s) simp_all

lemma speakBrowser_expand:
  "speakBrowser text s =
     emit (if hasSpeechSynthesis s
           then SynthCancel # (if local_clean text = [] then []
             else [SynthSpeak (local_clean text) (pick_voice (selectedVoiceId s) (browserVoices s))])
           else []) s"
  by (simp add: speakBrowser_def emit_def Let_def)

lemma speak_resume_expand:
  "speak_resume usedAI text q s =
     emit (if speakSeq s = q \<and> \<not> usedAI
           then InvokeLocal q text #
             (if hasSpeechSynthesis s
              then SynthCancel # (if local_clean text = [] then []
                else [SynthSpeak (local_clean text) (pick_voice (selectedVoiceId s) (browserVoices s))])
              else [])
           else []) s"
  by (simp add: speak_resume_def speakBrowser_expand emit_def)

lemmas handler_defs = speak_def cancelAllSpeech_def setOAIKey_def setOAIVoice_def
  loadBrowserVoices_def timer_fired_def after_debounce_def speakWithOpenAI_def
  fetch_resolved_def fetch_rejected_def json_settled_def blob_resolved_def blob_rejected_def
  audio_over_def play_rejected_def speak_resume_expand emit_def Let_def

lemmas inv_defs = waits_for_def reached_backend_def in_flight_def

text \<open>The definitions that evaluate a run on concrete input.\<close>

lemmas eval_defs = init_state_def speak_def cancelAllSpeech_def emit_def trim_def is_ws_def
  timer_fired_def after_debounce_def speakWithOpenAI_def remote_clean_def remote_class_def
  replace_newlines_def speak_resume_def speakBrowser_def local_clean_def local_class_def
  pick_voice_def fetch_resolved_def json_settled_def blob_resolved_def setOAIVoice_def
  reached_backend_def ascii_def Let_def

lemma reached_backend_emit:
  "reached_backend T (emit es s) \<longleftrightarrow> reached_backend T s \<or> (\<exists>e\<in>set es. caller_of e = Some T)"
  by (auto simp: reached_backend_def emit_def)

lemma cancelAllSpeech_frame:
  "fetches (cancelAllSpeech s) = fetches s" "jsons (cancelAllSpeech s) = jsons s"
  "blobs (cancelAllSpeech s) = blobs s" "nextId (cancelAllSpeech s) = nextId s"
  "speakSeq (cancelAllSpeech s) = speakSeq s + 1"
  "reached_backend T (cancelAllSpeech s) = reached_backend T s"
  "pendingSpeakTimer (cancelAllSpeech s) = None"
  by (auto simp: cancelAllSpeech_def reached_backend_def emit_def Let_def split: option.splits)

lemma step_speak_expand:
  "trim text \<noteq> [] \<Longrightarrow>
   step (CallSpeak (JString text)) s =
     emit [SetTimeout (nextId s)]
       ((cancelAllSpeech s)\<lparr>timers := (timers (cancelAllSpeech s))(nextId s \<mapsto> (text, speakSeq s + 1)),
          pendingSpeakTimer := Some (nextId s), nextId := nextId s + 1\<rparr>)"
  by (simp add: speak_def Let_def cancelAllSpeech_frame)

lemma step_speak_proj:
  assumes nonblank: "trim msg \<noteq> []"
  shows "timers (step (CallSpeak (JString msg)) s) =
      (timers (cancelAllSpeech s))(nextId s \<mapsto> (msg, speakSeq s + 1))"
    and "pendingSpeakTimer (step (CallSpeak (JString msg)) s) = Some (nextId s)"
    and "speakSeq (step (CallSpeak (JString msg)) s) = speakSeq s + 1"
    and "in_flight T (step (CallSpeak (JString msg)) s) = in_flight T s"
    and "reached_backend T (step (CallSpeak (JString msg)) s) = reached_backend T s"
proof -
  let ?c = "cancelAllSpeech s"
  have "reached_backend T (?c\<lparr>timers := (timers ?c)(nextId s \<mapsto> (msg, speakSeq s + 1)),
      pendingSpeakTimer := Some (nextId s), nextId := nextId s + 1\<rparr>) = reached_backend T ?c"
    by (simp add: reached_backend_def)
  then show "reached_backend T (step (CallSpeak (JString msg)) s) = reached_backend T s"
    unfolding step_speak_expand [OF nonblank]
    by (simp add: reached_backend_emit cancelAllSpeech_frame)
qed (simp_all add: step_speak_expand [OF nonblank] in_flight_def emit_def cancelAllSpeech_frame
    del: step.simps)

lemma after_debounce_timers:
  "timers (after_debounce text q s) = timers s"
  "pendingSpeakTimer (after_debounce text q s) = pendingSpeakTimer s"
  by (simp_all add: after_debounce_def speakWithOpenAI_def speak_resume_expand emit_def Let_def)

lemma step_timers_frame:
  assumes "\<forall>v. e \<noteq> CallSpeak v" "e \<noteq> CallCancelAll" "\<forall>t. e \<noteq> TimerFired t"
  shows "timers (step e s) = timers s" "pendingSpeakTimer (step e s) = pendingSpeakTimer s"
  using assms
  by (cases e; simp add: handler_defs split: option.splits)+

subsection \<open>The token\<close>

lemma speakSeq_step_cancel: "speakSeq (step CallCancelAll s) = speakSeq s + 1"
  by (simp add: cancelAllSpeech_frame)

lemma speakSeq_step_speak:
  "trim text \<noteq> [] \<Longrightarrow> speakSeq (step (CallSpeak (JString text)) s) = speakSeq s + 1"
  by (rule step_speak_proj)

lemma speakSeq_step_other: "\<not> supersedes e \<Longrightarrow> speakSeq (step e s) = speakSeq s"
  by (cases e)
    (auto simp: supersedes_def handler_defs split: option.splits jsval.splits)

lemma speakSeq_step_le: "speakSeq s \<le> speakSeq (step e s)"
proof (cases "supersedes e")
  case True
  then show ?thesis
    by (cases e)
      (auto simp del: step.simps simp: supersedes_def speakSeq_step_cancel speakSeq_step_speak
        split: jsval.splits)
next
  case False
  then show ?thesis by (simp add: speakSeq_step_other del: step.simps)
qed

lemma speakSeq_run_le: "speakSeq s \<le> speakSeq (run es s)"
proof (induction es arbitrary: s)
  case Nil
  show ?case by simp
next
  case (Cons e es)
  have "speakSeq s \<le> speakSeq (step e s)" by (rule speakSeq_step_le)
  also have "\<dots> \<le> speakSeq (run es (step e s))" by (rule Cons.IH)
  finally show ?case by simp
qed

subsection \<open>Invariants\<close>

lemma only_pendingD: "only_pending s \<Longrightarrow> timers s t = Some x \<Longrightarrow> pendingSpeakTimer s = Some t"
  by (simp add: only_pending_def)

lemma timers_cancelAllSpeech: "only_pending s \<Longrightarrow> timers (cancelAllSpeech s) t = None"
proof (cases "pendingSpeakTimer s")
  case None
  assume "only_pending s"
  with None have "timers s t = None"
    by (cases "timers s t") (auto dest: only_pendingD)
  with None show ?thesis
    by (simp add: cancelAllSpeech_def emit_def Let_def split: option.splits)
next
  case (Some p)
  assume "only_pending s"
  with Some have "t \<noteq> p \<Longrightarrow> timers s t = None"
    by (cases "timers s t") (auto dest: only_pendingD)
  with Some show ?thesis
    by (auto simp: cancelAllSpeech_def emit_def Let_def split: option.splits)
qed

lemma only_pending_step:
  assumes p: "only_pending s"
  shows "only_pending (step e s)"
proof (cases e)
  case (CallSpeak v)
  show ?thesis
  proof (cases "\<exists>msg. v = JString msg \<and> trim msg \<noteq> []")
    case True
    then obtain msg where v: "v = JString msg" and nonblank: "trim msg \<noteq> []" by blast
    show ?thesis
      unfolding CallSpeak v only_pending_def step_speak_proj [OF nonblank]
      by (simp add: timers_cancelAllSpeech [OF p])
  next
    case False
    then have "step e s = s \<or> step e s = emit [Rejected TypeError] s"
      unfolding CallSpeak by (cases v) (auto simp: speak_def)
    with p show ?thesis by (auto simp: only_pending_def emit_def)
  qed
next
  case CallCancelAll
  then show ?thesis
    by (simp add: only_pending_def timers_cancelAllSpeech [OF p])
next
  case (TimerFired t)
  show ?thesis
  proof (cases "timers s t")
    case None
    with p show ?thesis by (simp add: TimerFired timer_fired_def)
  next
    case (Some x)
    with p have pend: "pendingSpeakTimer s = Some t" by (rule only_pendingD)
    have "timers s u = None" if "u \<noteq> t" for u
    proof (cases "timers s u")
      case (Some y)
      with p have "pendingSpeakTimer s = Some u" by (rule only_pendingD)
      with pend that show ?thesis by simp
    qed simp
    then show ?thesis
      using Some
      by (cases x) (auto simp: TimerFired timer_fired_def only_pending_def after_debounce_timers)
  qed
qed (use p in \<open>simp_all add: only_pending_def step_timers_frame del: step.simps\<close>)

lemma no_future_step: "no_future s \<Longrightarrow> no_future (step e s)"
  by (cases e)
    (auto simp: no_future_def inv_defs handler_defs split: option.splits jsval.splits if_splits)

lemma state_ok_step: "state_ok s \<Longrightarrow> state_ok (step e s)"
  by (simp add: state_ok_def only_pending_step no_future_step del: step.simps)

lemma state_ok_init: "state_ok (init_state key v has)"
  by (simp add: state_ok_def only_pending_def no_future_def inv_defs init_state_def)

lemma state_ok_run: "state_ok s \<Longrightarrow> state_ok (run es s)"
  by (induction es arbitrary: s) (simp_all add: state_ok_step del: step.simps)

lemma state_ok_reachable: "state_ok (run es (init_state key v has))"
  by (rule state_ok_run) (rule state_ok_init)

subsection \<open>A superseded call\<close>











subsection \<open>The fallback and the stale response\<close>

lemma cancelAllSpeech_config:
  "openaiApiKey (cancelAllSpeech s) = openaiApiKey s"
  "hasSpeechSynthesis (cancelAllSpeech s) = hasSpeechSynthesis s"
  "selectedVoiceId (cancelAllSpeech s) = selectedVoiceId s"
  "browserVoices (cancelAllSpeech s) = browserVoices s"
  by (simp_all add: cancelAllSpeech_def emit_def Let_def split: option.splits)

lemma step_speak_config:
  assumes nonblank: "trim msg \<noteq> []"
  shows "openaiApiKey (step (CallSpeak (JString msg)) s) = openaiApiKey s"
    and "hasSpeechSynthesis (step (CallSpeak (JString msg)) s) = hasSpeechSynthesis s"
    and "selectedVoiceId (step (CallSpeak (JString msg)) s) = selectedVoiceId s"
    and "browserVoices (step (CallSpeak (JString msg)) s) = browserVoices s"
    and "trace (step (CallSpeak (JString msg)) s) = trace (cancelAllSpeech s) @ [SetTimeout (nextId s)]"
  by (simp_all add: step_speak_expand [OF nonblank] emit_def cancelAllSpeech_config
      del: step.simps)

lemma timer_fired_no_key:
  "openaiApiKey s = [] \<Longrightarrow> timers s t = Some (text, T) \<Longrightarrow> speakSeq s = T \<Longrightarrow>
   step (TimerFired t) s =
     emit ([InvokeRemote T text, InvokeLocal T text] @
           (if hasSpeechSynthesis s
            then SynthCancel # (if local_clean text = [] then []
              else [SynthSpeak (local_clean text)
                      (pick_voice (selectedVoiceId s) (browserVoices s))])
            else []))
       (s\<lparr>timers := (timers s)(t := None), pendingSpeakTimer := None\<rparr>)"
  by (simp add: timer_fired_def after_debounce_def speakWithOpenAI_def speak_resume_expand
      emit_def Let_def)

text \<open>
  C2. A request was issued under token \<open>T\<close> and the token has moved on. When the
  response arrives (\<open>FetchResolved\<close>, with any status), or when the payload has been
  read (\<open>BlobResolved\<close>), the call is dropped and nothing else changes: no audio element
  is created or played, \<^verbatim>\<open>currentTTSAudio\<close> is as before, and \<^verbatim>\<open>speakBrowser\<close> is not
  called.
\<close>

theorem stale_response_discarded:
  "(fetches s f = Some (text, T) \<and> T < speakSeq s \<longrightarrow>
      step (FetchResolved f ok) s = s\<lparr>fetches := (fetches s)(f := None)\<rparr>) \<and>
   (blobs s f = Some (text, T) \<and> T < speakSeq s \<longrightarrow>
      step (BlobResolved f) s = s\<lparr>blobs := (blobs s)(f := None)\<rparr>)"
  by (simp add: fetch_resolved_def blob_resolved_def speak_resume_def Let_def)

theorem stale_response_discarded_witness:
  "fetches (run [CallSpeak (JString (ascii ''hi'')), TimerFired 0, CallCancelAll]
      (init_state (ascii ''sk'') (ascii ''nova'') True)) 1 = Some (ascii ''hi'', 1) \<and>
   1 < speakSeq (run [CallSpeak (JString (ascii ''hi'')), TimerFired 0, CallCancelAll]
      (init_state (ascii ''sk'') (ascii ''nova'') True)) \<and>
   trace (run [CallSpeak (JString (ascii ''hi'')), TimerFired 0, CallCancelAll, FetchResolved 1 True]
      (init_state (ascii ''sk'') (ascii ''nova'') True)) =
   trace (run [CallSpeak (JString (ascii ''hi'')), TimerFired 0, CallCancelAll]
      (init_state (ascii ''sk'') (ascii ''nova'') True)) \<and>
   blobs (run [CallSpeak (JString (ascii ''hi'')), TimerFired 0, FetchResolved 1 True, CallCancelAll]
      (init_state (ascii ''sk'') (ascii ''nova'') True)) 1 = Some (ascii ''hi'', 1) \<and>
   1 < speakSeq (run [CallSpeak (JString (ascii ''hi'')), TimerFired 0, FetchResolved 1 True, CallCancelAll]
      (init_state (ascii ''sk'') (ascii ''nova'') True)) \<and>
   trace (run [CallSpeak (JString (ascii ''hi'')), TimerFired 0, FetchResolved 1 True, CallCancelAll,
        BlobResolved 1] (init_state (ascii ''sk'') (ascii ''nova'') True)) =
   trace (run [CallSpeak (JString (ascii ''hi'')), TimerFired 0, FetchResolved 1 True, CallCancelAll]
      (init_state (ascii ''sk'') (ascii ''nova'') True))"
  using stale_response_discarded
    [of "run [CallSpeak (JString (ascii ''hi'')), TimerFired 0, CallCancelAll]
      (init_state (ascii ''sk'') (ascii ''nova'') True)" 1 "ascii ''hi''" 1 True]
    stale_response_discarded
    [of "run [CallSpeak (JString (ascii ''hi'')), TimerFired 0, FetchResolved 1 True, CallCancelAll]
      (init_state (ascii ''sk'') (ascii ''nova'') True)" 1 "ascii ''hi''" 1 True]
  by (simp add: eval_defs)

text \<open>
  C3, as the code has it. A key is set and the text is empty once it is cleaned for the
  remote service. When the timer fires under the current token, \<^verbatim>\<open>speakWithOpenAI\<close>
  returns \<^verbatim>\<open>false\<close> without a request, and \<^verbatim>\<open>speak\<close> does call \<^verbatim>\<open>speakBrowser\<close>
  with the original text; the browser speaks what line 121 leaves of it, if anything.
  The two texts below are a salad emoji and a letter e with an acute accent.
\<close>

theorem unspeakable_remote_text_counterexample:
  "trim [0xD83E, 0xDD57] \<noteq> [] \<and> remote_clean [0xD83E, 0xDD57] = [] \<and>
   trace (run [CallSpeak (JString [0xD83E, 0xDD57]), TimerFired 0]
     (init_state (ascii ''sk'') (ascii ''nova'') True)) =
     [SynthCancel, SetTimeout 0, InvokeRemote 1 [0xD83E, 0xDD57], InvokeLocal 1 [0xD83E, 0xDD57],
      SynthCancel, SynthSpeak [0xD83E, 0xDD57] None] \<and>
   trim [0xE9] \<noteq> [] \<and> remote_clean [0xE9] = [] \<and>
   trace (run [CallSpeak (JString [0xE9]), TimerFired 0]
     (init_state (ascii ''sk'') (ascii ''nova'') True)) =
     [SynthCancel, SetTimeout 0, InvokeRemote 1 [0xE9], InvokeLocal 1 [0xE9],
      SynthCancel, SynthSpeak [0xE9] None]"
  by (simp add: eval_defs)

text \<open>C3, amended: the remote backend has nothing to say, the local one is called.\<close>

theorem unspeakable_remote_text_falls_back:
  "timers s t = Some (text, T) \<and> speakSeq s = T \<and> openaiApiKey s \<noteq> [] \<and>
   remote_clean text = [] \<longrightarrow>
     speakWithOpenAI text T s = (Some False, s) \<and>
     step (TimerFired t) s =
       emit ([InvokeRemote T text, InvokeLocal T text] @
             (if hasSpeechSynthesis s
              then SynthCancel # (if local_clean text = [] then []
                else [SynthSpeak (local_clean text) (pick_voice (selectedVoiceId s) (browserVoices s))])
              else []))
         (s\<lparr>timers := (timers s)(t := None), pendingSpeakTimer := None\<rparr>)"
  by (simp add: timer_fired_def after_debounce_def speakWithOpenAI_def speak_resume_expand
      emit_def Let_def)

theorem unspeakable_remote_text_falls_back_witness:
  "timers (step (CallSpeak (JString [0xE9])) (init_state (ascii ''sk'') (ascii ''nova'') True)) 0
     = Some ([0xE9], 1) \<and>
   speakSeq (step (CallSpeak (JString [0xE9])) (init_state (ascii ''sk'') (ascii ''nova'') True)) = 1 \<and>
   openaiApiKey (step (CallSpeak (JString [0xE9])) (init_state (ascii ''sk'') (ascii ''nova'') True))
     \<noteq> [] \<and>
   remote_clean [0xE9] = [] \<and>
   trace (step (TimerFired 0)
     (step (CallSpeak (JString [0xE9])) (init_state (ascii ''sk'') (ascii ''nova'') True))) =
     [SynthCancel, SetTimeout 0, InvokeRemote 1 [0xE9], InvokeLocal 1 [0xE9],
      SynthCancel, SynthSpeak [0xE9] None]"
  using unspeakable_remote_text_falls_back
    [of "step (CallSpeak (JString [0xE9])) (init_state (ascii ''sk'') (ascii ''nova'') True)"
      0 "[0xE9]" 1]
  by (simp add: eval_defs)

text \<open>
  C4, as the code has it. Without a key the local backend is called, but it asks the
  engine to speak only if there is an engine and line 121 leaves some text: for the
  text \<^verbatim>\<open>#\<close>, and for any text where \<^verbatim>\<open>speechSynthesis\<close> is missing, nothing is
  synthesised.
\<close>

theorem no_key_unspeakable_text_counterexample:
  "trim [0x23] \<noteq> [] \<and>
   trace (run [CallSpeak (JString [0x23]), TimerFired 0] (init_state [] (ascii ''nova'') True)) =
     [SynthCancel, SetTimeout 0, InvokeRemote 1 [0x23], InvokeLocal 1 [0x23], SynthCancel] \<and>
   trim (ascii ''hello'') \<noteq> [] \<and>
   trace (run [CallSpeak (JString (ascii ''hello'')), TimerFired 0]
     (init_state [] (ascii ''nova'') False)) =
     [SetTimeout 0, InvokeRemote 1 (ascii ''hello''), InvokeLocal 1 (ascii ''hello'')]"
  by (simp add: eval_defs)

text \<open>
  C4, amended. Without a key \<^verbatim>\<open>speakWithOpenAI\<close> returns \<^verbatim>\<open>false\<close> at once and
  changes nothing, so no request is sent. When the timer of the call fires under the
  current token, \<^verbatim>\<open>speakBrowser\<close> is called once with the text; the engine is asked to
  speak once, the text as line 121 cleans it, if there is an engine and that text is
  not empty, and not at all otherwise. The last part is the whole run from the call of
  \<^verbatim>\<open>speak\<close>.
\<close>

theorem no_key_local_only:
  "openaiApiKey s = [] \<longrightarrow>
     speakWithOpenAI text T s = (Some False, s) \<and>
     (timers s t = Some (text, T) \<and> speakSeq s = T \<longrightarrow>
        step (TimerFired t) s =
          emit ([InvokeRemote T text, InvokeLocal T text] @
                (if hasSpeechSynthesis s
                 then SynthCancel # (if local_clean text = [] then []
                   else [SynthSpeak (local_clean text)
                           (pick_voice (selectedVoiceId s) (browserVoices s))])
                 else []))
            (s\<lparr>timers := (timers s)(t := None), pendingSpeakTimer := None\<rparr>)) \<and>
     (trim text \<noteq> [] \<longrightarrow>
        trace (run [CallSpeak (JString text), TimerFired (nextId s)] s) =
          trace (cancelAllSpeech s) @
          [SetTimeout (nextId s), InvokeRemote (speakSeq s + 1) text,
           InvokeLocal (speakSeq s + 1) text] @
          (if hasSpeechSynthesis s
           then SynthCancel # (if local_clean text = [] then []
             else [SynthSpeak (local_clean text)
                     (pick_voice (selectedVoiceId s) (browserVoices s))])
           else []))"
proof (intro impI conjI)
  assume key: "openaiApiKey s = []"
  then show "speakWithOpenAI text T s = (Some False, s)"
    by (simp add: speakWithOpenAI_def)
  show "step (TimerFired t) s =
      emit ([InvokeRemote T text, InvokeLocal T text] @
            (if hasSpeechSynthesis s
             then SynthCancel # (if local_clean text = [] then []
               else [SynthSpeak (local_clean text)
                       (pick_voice (selectedVoiceId s) (browserVoices s))])
             else []))
        (s\<lparr>timers := (timers s)(t := None), pendingSpeakTimer := None\<rparr>)"
    if "timers s t = Some (text, T) \<and> speakSeq s = T"
    using that key by (intro timer_fired_no_key) simp_all
  show "trace (run [CallSpeak (JString text), TimerFired (nextId s)] s) =
      trace (cancelAllSpeech s) @
      [SetTimeout (nextId s), InvokeRemote (speakSeq s + 1) text,
       InvokeLocal (speakSeq s + 1) text] @
      (if hasSpeechSynthesis s
       then SynthCancel # (if local_clean text = [] then []
         else [SynthSpeak (local_clean text)
                 (pick_voice (selectedVoiceId s) (browserVoices s))])
       else [])"
    if nonblank: "trim text \<noteq> []"
  proof -
    let ?s1 = "step (CallSpeak (JString text)) s"
    have "step (TimerFired (nextId s)) ?s1 =
      emit ([InvokeRemote (speakSeq s + 1) text, InvokeLocal (speakSeq s + 1) text] @
           (if hasSpeechSynthesis ?s1
            then SynthCancel # (if local_clean text = [] then []
              else [SynthSpeak (local_clean text)
                      (pick_voice (selectedVoiceId ?s1) (browserVoices ?s1))])
            else []))
       (?s1\<lparr>timers := (timers ?s1)(nextId s := None), pendingSpeakTimer := None\<rparr>)"
      using key
      by (intro timer_fired_no_key)
        (simp_all add: step_speak_config [OF nonblank] step_speak_proj [OF nonblank]
          del: step.simps)
    then have "trace (step (TimerFired (nextId s)) ?s1) =
      trace ?s1 @ [InvokeRemote (speakSeq s + 1) text, InvokeLocal (speakSeq s + 1) text] @
           (if hasSpeechSynthesis ?s1
            then SynthCancel # (if local_clean text = [] then []
              else [SynthSpeak (local_clean text)
                      (pick_voice (selectedVoiceId ?s1) (browserVoices ?s1))])
            else [])"
      by (simp add: emit_def del: step.simps)
    then show ?thesis
      by (simp add: step_speak_config [OF nonblank] del: step.simps)
  qed
qed

theorem no_key_local_only_witness:
  "openaiApiKey (step (CallSpeak (JString (ascii ''hello''))) (init_state [] (ascii ''nova'') True))
     = [] \<and>
   timers (step (CallSpeak (JString (ascii ''hello''))) (init_state [] (ascii ''nova'') True)) 0
     = Some (ascii ''hello'', 1) \<and>
   speakSeq (step (CallSpeak (JString (ascii ''hello''))) (init_state [] (ascii ''nova'') True)) = 1 \<and>
   trim (ascii ''hello'') \<noteq> [] \<and>
   trace (step (TimerFired 0)
     (step (CallSpeak (JString (ascii ''hello''))) (init_state [] (ascii ''nova'') True))) =
     [SynthCancel, SetTimeout 0, InvokeRemote 1 (ascii ''hello''), InvokeLocal 1 (ascii ''hello''),
      SynthCancel, SynthSpeak (ascii ''hello'') None]"
  using no_key_local_only
    [of "step (CallSpeak (JString (ascii ''hello''))) (init_state [] (ascii ''nova'') True)"
      "ascii ''hello''" 1 0]
  by (simp add: eval_defs)



subsection \<open>Blank text, cancellation and the token\<close>

text \<open>
  C6. \<^verbatim>\<open>speak\<close> with a text that is empty or all whitespace returns at once and
  leaves the whole state as it was: the token, the timers and \<^verbatim>\<open>pendingSpeakTimer\<close>,
  \<^verbatim>\<open>currentTTSAudio\<close>, and the effects (no backend is called, nothing is cancelled or
  scheduled).
\<close>

theorem speak_blank_noop:
  "trim text = [] \<longrightarrow> speak (JString text) s = Inr s \<and> step (CallSpeak (JString text)) s = s"
  by (simp add: speak_def)

theorem speak_blank_noop_witness:
  "trim [] = [] \<and> trim [0x20, 0x20, 0x20] = [] \<and>
   step (CallSpeak (JString [])) (init_state [] [] True) = init_state [] [] True \<and>
   step (CallSpeak (JString [0x20, 0x20, 0x20])) (init_state [] [] True) = init_state [] [] True"
  using speak_blank_noop [of "[]" "init_state [] [] True"]
    speak_blank_noop [of "[0x20, 0x20, 0x20]" "init_state [] [] True"]
  by (simp add: trim_def is_ws_def)

text \<open>
  C7. With no timer pending and no audio playing, two calls of \<^verbatim>\<open>cancelAllSpeech\<close> in
  a row leave \<^verbatim>\<open>pendingSpeakTimer\<close> and \<^verbatim>\<open>currentTTSAudio\<close> null and add exactly two
  to the token. Nothing else changes; the browser's synthesis, if there is one, is told
  to cancel each time. \<^verbatim>\<open>cancelAllSpeech\<close> has no path that raises: the call of
  \<^verbatim>\<open>speechSynthesis.cancel\<close> is inside a \<^verbatim>\<open>try\<close>, and \<^verbatim>\<open>pause\<close> is only called on an
  audio element that exists.
\<close>

theorem cancelAll_twice:
  "pendingSpeakTimer s = None \<and> currentTTSAudio s = None \<longrightarrow>
     run [CallCancelAll, CallCancelAll] s =
       s\<lparr>speakSeq := speakSeq s + 2,
         trace := trace s @ (if hasSpeechSynthesis s then [SynthCancel, SynthCancel] else [])\<rparr> \<and>
     pendingSpeakTimer (run [CallCancelAll, CallCancelAll] s) = None \<and>
     currentTTSAudio (run [CallCancelAll, CallCancelAll] s) = None \<and>
     speakSeq (run [CallCancelAll, CallCancelAll] s) = speakSeq s + 2"
  by (simp add: cancelAllSpeech_def emit_def Let_def)

theorem cancelAll_twice_witness:
  "pendingSpeakTimer (init_state [] [] True) = None \<and>
   currentTTSAudio (init_state [] [] True) = None \<and>
   pendingSpeakTimer (run [CallCancelAll, CallCancelAll] (init_state [] [] True)) = None \<and>
   currentTTSAudio (run [CallCancelAll, CallCancelAll] (init_state [] [] True)) = None \<and>
   speakSeq (run [CallCancelAll, CallCancelAll] (init_state [] [] True)) = 2"
  using cancelAll_twice [of "init_state [] [] True"]
  by (simp add: init_state_def)

text \<open>
  C8. \<^verbatim>\<open>cancelAllSpeech()\<close> and \<^verbatim>\<open>speak\<close> with a text that is not blank add exactly
  one to the token, every other task leaves it as it is, so it never decreases over a
  run; and a value that has once been replaced is never the current token again.
\<close>

theorem token_strictly_monotone:
  "speakSeq (step CallCancelAll s) = speakSeq s + 1 \<and>
   (\<forall>text. trim text \<noteq> [] \<longrightarrow> speakSeq (step (CallSpeak (JString text)) s) = speakSeq s + 1) \<and>
   (\<forall>e. \<not> supersedes e \<longrightarrow> speakSeq (step e s) = speakSeq s) \<and>
   (\<forall>es. speakSeq s \<le> speakSeq (run es s)) \<and>
   (\<forall>es1 es2 es3. speakSeq (run (es1 @ es2) s) \<noteq> speakSeq (run es1 s) \<longrightarrow>
      speakSeq (run (es1 @ es2 @ es3) s) \<noteq> speakSeq (run es1 s))"
proof -
  have reuse: "speakSeq (run (es1 @ es2 @ es3) s) \<noteq> speakSeq (run es1 s)"
    if "speakSeq (run (es1 @ es2) s) \<noteq> speakSeq (run es1 s)" for es1 es2 es3
  proof -
    have "speakSeq (run es1 s) \<le> speakSeq (run es2 (run es1 s))" by (rule speakSeq_run_le)
    with that have "speakSeq (run es1 s) < speakSeq (run (es1 @ es2) s)" by (simp add: run_append)
    also have "\<dots> \<le> speakSeq (run es3 (run (es1 @ es2) s))" by (rule speakSeq_run_le)
    finally show ?thesis by (simp add: run_append)
  qed
  show ?thesis
    using reuse
    by (simp del: step.simps
        add: speakSeq_step_cancel speakSeq_step_speak speakSeq_step_other speakSeq_run_le)
qed

theorem token_strictly_monotone_witness:
  "trim (ascii ''go'') \<noteq> [] \<and>
   speakSeq (step (CallSpeak (JString (ascii ''go''))) (init_state [] [] True)) = 1 \<and>
   \<not> supersedes (TimerFired 0) \<and>
   speakSeq (step (TimerFired 0) (step (CallSpeak (JString (ascii ''go''))) (init_state [] [] True))) = 1 \<and>
   speakSeq (run ([CallCancelAll] @ [CallCancelAll]) (init_state [] [] True)) \<noteq>
     speakSeq (run [CallCancelAll] (init_state [] [] True)) \<and>
   speakSeq (run ([CallCancelAll] @ [CallCancelAll] @ [CallSpeak (JString (ascii ''go''))])
     (init_state [] [] True)) \<noteq> speakSeq (run [CallCancelAll] (init_state [] [] True))"
  using token_strictly_monotone [of "init_state [] [] True"]
    token_strictly_monotone [of "step (CallSpeak (JString (ascii ''go''))) (init_state [] [] True)"]
  by (simp add: eval_defs supersedes_def)

subsection \<open>The voice of the local backend\<close>

lemma find_ex_Some: "\<exists>x\<in>set xs. P x \<Longrightarrow> \<exists>x. find P xs = Some x \<and> x \<in> set xs \<and> P x"
  by (induction xs) auto

lemma find_None_set: "find P xs = None \<longleftrightarrow> (\<forall>x\<in>set xs. \<not> P x)"
  by (induction xs) auto

lemmas voice_eval = english_def startsWith_def

text \<open>
  C9. The voice that \<^verbatim>\<open>speakBrowser\<close> sets on the utterance. If
  \<^verbatim>\<open>selectedVoiceId\<close> is set, it is the first voice with that \<^verbatim>\<open>voiceURI\<close> (so a voice
  with that identifier, if there is one). If it is not set: an English voice that is
  not a local service if there is one; otherwise an English voice if there is one;
  otherwise the first voice of the list. With an empty list no voice is set. The last
  part says that this choice is what the spoken utterance carries.
\<close>

theorem voice_preference_order:
  "(sel \<noteq> [] \<longrightarrow> pick_voice sel vs = find (\<lambda>v. voiceURI v = sel) vs) \<and>
   (sel \<noteq> [] \<and> (\<exists>v\<in>set vs. voiceURI v = sel) \<longrightarrow>
      (\<exists>v. pick_voice sel vs = Some v \<and> v \<in> set vs \<and> voiceURI v = sel)) \<and>
   (sel = [] \<and> (\<exists>v\<in>set vs. english v \<and> \<not> localService v) \<longrightarrow>
      (\<exists>v. pick_voice sel vs = Some v \<and> v \<in> set vs \<and> english v \<and> \<not> localService v)) \<and>
   (sel = [] \<and> (\<forall>v\<in>set vs. english v \<longrightarrow> localService v) \<and> (\<exists>v\<in>set vs. english v) \<longrightarrow>
      (\<exists>v. pick_voice sel vs = Some v \<and> v \<in> set vs \<and> english v)) \<and>
   (sel = [] \<and> (\<forall>v\<in>set vs. \<not> english v) \<and> vs \<noteq> [] \<longrightarrow> pick_voice sel vs = Some (hd vs)) \<and>
   (vs = [] \<longrightarrow> pick_voice sel vs = None) \<and>
   (hasSpeechSynthesis s \<and> local_clean text \<noteq> [] \<longrightarrow>
      speakBrowser text s =
        emit [SynthCancel, SynthSpeak (local_clean text)
          (pick_voice (selectedVoiceId s) (browserVoices s))] s)"
proof -
  have a: "sel \<noteq> [] \<longrightarrow> pick_voice sel vs = find (\<lambda>v. voiceURI v = sel) vs"
    by (simp add: pick_voice_def)
  have b: "sel \<noteq> [] \<and> (\<exists>v\<in>set vs. voiceURI v = sel) \<longrightarrow>
      (\<exists>v. pick_voice sel vs = Some v \<and> v \<in> set vs \<and> voiceURI v = sel)"
  proof (intro impI, elim conjE)
    assume sel: "sel \<noteq> []" and ex: "\<exists>v\<in>set vs. voiceURI v = sel"
    from ex obtain v where "find (\<lambda>v. voiceURI v = sel) vs = Some v" "v \<in> set vs" "voiceURI v = sel"
      using find_ex_Some [of vs "\<lambda>v. voiceURI v = sel"] by blast
    then show "\<exists>v. pick_voice sel vs = Some v \<and> v \<in> set vs \<and> voiceURI v = sel"
      using sel by (simp add: pick_voice_def)
  qed
  have c: "sel = [] \<and> (\<exists>v\<in>set vs. english v \<and> \<not> localService v) \<longrightarrow>
      (\<exists>v. pick_voice sel vs = Some v \<and> v \<in> set vs \<and> english v \<and> \<not> localService v)"
  proof (intro impI, elim conjE)
    assume sel: "sel = []" and ex: "\<exists>v\<in>set vs. english v \<and> \<not> localService v"
    from ex obtain v where "find (\<lambda>v. english v \<and> \<not> localService v) vs = Some v"
      "v \<in> set vs" "english v \<and> \<not> localService v"
      using find_ex_Some [of vs "\<lambda>v. english v \<and> \<not> localService v"] by blast
    then show "\<exists>v. pick_voice sel vs = Some v \<and> v \<in> set vs \<and> english v \<and> \<not> localService v"
      using sel by (simp add: pick_voice_def)
  qed
  have d: "sel = [] \<and> (\<forall>v\<in>set vs. english v \<longrightarrow> localService v) \<and> (\<exists>v\<in>set vs. english v) \<longrightarrow>
      (\<exists>v. pick_voice sel vs = Some v \<and> v \<in> set vs \<and> english v)"
  proof (intro impI, elim conjE)
    assume sel: "sel = []" and nl: "\<forall>v\<in>set vs. english v \<longrightarrow> localService v"
      and en: "\<exists>v\<in>set vs. english v"
    from nl have "find (\<lambda>v. english v \<and> \<not> localService v) vs = None"
      by (auto simp: find_None_set)
    moreover from en obtain v where "find english vs = Some v" "v \<in> set vs" "english v"
      using find_ex_Some [of vs english] by blast
    ultimately show "\<exists>v. pick_voice sel vs = Some v \<and> v \<in> set vs \<and> english v"
      using sel by (simp add: pick_voice_def)
  qed
  have e: "sel = [] \<and> (\<forall>v\<in>set vs. \<not> english v) \<and> vs \<noteq> [] \<longrightarrow> pick_voice sel vs = Some (hd vs)"
  proof (intro impI, elim conjE)
    assume sel: "sel = []" and ne: "\<forall>v\<in>set vs. \<not> english v" and vs: "vs \<noteq> []"
    from ne have "find (\<lambda>v. english v \<and> \<not> localService v) vs = None" "find english vs = None"
      by (auto simp: find_None_set)
    then show "pick_voice sel vs = Some (hd vs)"
      using sel vs by (cases vs) (simp_all add: pick_voice_def)
  qed
  have f: "vs = [] \<longrightarrow> pick_voice sel vs = None"
    by (simp add: pick_voice_def)
  have g: "hasSpeechSynthesis s \<and> local_clean text \<noteq> [] \<longrightarrow>
      speakBrowser text s =
        emit [SynthCancel, SynthSpeak (local_clean text)
          (pick_voice (selectedVoiceId s) (browserVoices s))] s"
    by (simp add: speakBrowser_expand)
  from a b c d e f g show ?thesis by blast
qed

theorem voice_preference_order_witness:
  "pick_voice (ascii ''de-1'')
     [\<lparr>voiceURI = ascii ''fr-1'', name = ascii ''Amelie'', lang = ascii ''fr-FR'', localService = True\<rparr>,
      \<lparr>voiceURI = ascii ''de-1'', name = ascii ''Anna'', lang = ascii ''de-DE'', localService = True\<rparr>,
      \<lparr>voiceURI = ascii ''en-1'', name = ascii ''Daniel'', lang = ascii ''en-GB'', localService = True\<rparr>,
      \<lparr>voiceURI = ascii ''en-2'', name = ascii ''Google US English'', lang = ascii ''en-US'', localService = False\<rparr>]
   = Some \<lparr>voiceURI = ascii ''de-1'', name = ascii ''Anna'', lang = ascii ''de-DE'', localService = True\<rparr> \<and>
   pick_voice []
     [\<lparr>voiceURI = ascii ''fr-1'', name = ascii ''Amelie'', lang = ascii ''fr-FR'', localService = True\<rparr>,
      \<lparr>voiceURI = ascii ''de-1'', name = ascii ''Anna'', lang = ascii ''de-DE'', localService = True\<rparr>,
      \<lparr>voiceURI = ascii ''en-1'', name = ascii ''Daniel'', lang = ascii ''en-GB'', localService = True\<rparr>,
      \<lparr>voiceURI = ascii ''en-2'', name = ascii ''Google US English'', lang = ascii ''en-US'', localService = False\<rparr>]
   = Some \<lparr>voiceURI = ascii ''en-2'', name = ascii ''Google US English'', lang = ascii ''en-US'', localService = False\<rparr> \<and>
   pick_voice []
     [\<lparr>voiceURI = ascii ''fr-1'', name = ascii ''Amelie'', lang = ascii ''fr-FR'', localService = True\<rparr>,
      \<lparr>voiceURI = ascii ''en-1'', name = ascii ''Daniel'', lang = ascii ''en-GB'', localService = True\<rparr>]
   = Some \<lparr>voiceURI = ascii ''en-1'', name = ascii ''Daniel'', lang = ascii ''en-GB'', localService = True\<rparr> \<and>
   pick_voice []
     [\<lparr>voiceURI = ascii ''fr-1'', name = ascii ''Amelie'', lang = ascii ''fr-FR'', localService = True\<rparr>,
      \<lparr>voiceURI = ascii ''de-1'', name = ascii ''Anna'', lang = ascii ''de-DE'', localService = True\<rparr>]
   = Some \<lparr>voiceURI = ascii ''fr-1'', name = ascii ''Amelie'', lang = ascii ''fr-FR'', localService = True\<rparr> \<and>
   pick_voice [] [] = None \<and> pick_voice (ascii ''de-1'') [] = None \<and>
   hasSpeechSynthesis (init_state [] [] True) \<and> local_clean (ascii ''hello'') \<noteq> [] \<and>
   trace (speakBrowser (ascii ''hello'') (init_state [] [] True)) =
     [SynthCancel, SynthSpeak (ascii ''hello'') None]"
  using
    voice_preference_order [of "ascii ''de-1''"
     "[\<lparr>voiceURI = ascii ''fr-1'', name = ascii ''Amelie'', lang = ascii ''fr-FR'', localService = True\<rparr>,
      \<lparr>voiceURI = ascii ''de-1'', name = ascii ''Anna'', lang = ascii ''de-DE'', localService = True\<rparr>,
      \<lparr>voiceURI = ascii ''en-1'', name = ascii ''Daniel'', lang = ascii ''en-GB'', localService = True\<rparr>,
      \<lparr>voiceURI = ascii ''en-2'', name = ascii ''Google US English'', lang = ascii ''en-US'', localService = False\<rparr>]"
     "init_state [] [] True" "ascii ''hello''"]
    voice_preference_order [of "[]"
     "[\<lparr>voiceURI = ascii ''fr-1'', name = ascii ''Amelie'', lang = ascii ''fr-FR'', localService = True\<rparr>,
      \<lparr>voiceURI = ascii ''de-1'', name = ascii ''Anna'', lang = ascii ''de-DE'', localService = True\<rparr>,
      \<lparr>voiceURI = ascii ''en-1'', name = ascii ''Daniel'', lang = ascii ''en-GB'', localService = True\<rparr>,
      \<lparr>voiceURI = ascii ''en-2'', name = ascii ''Google US English'', lang = ascii ''en-US'', localService = False\<rparr>]"
     "init_state [] [] True" "ascii ''hello''"]
    voice_preference_order [of "[]"
     "[\<lparr>voiceURI = ascii ''fr-1'', name = ascii ''Amelie'', lang = ascii ''fr-FR'', localService = True\<rparr>,
      \<lparr>voiceURI = ascii ''en-1'', name = ascii ''Daniel'', lang = ascii ''en-GB'', localService = True\<rparr>]"
     "init_state [] [] True" "ascii ''hello''"]
    voice_preference_order [of "[]"
     "[\<lparr>voiceURI = ascii ''fr-1'', name = ascii ''Amelie'', lang = ascii ''fr-FR'', localService = True\<rparr>,
      \<lparr>voiceURI = ascii ''de-1'', name = ascii ''Anna'', lang = ascii ''de-DE'', localService = True\<rparr>]"
     "init_state [] [] True" "ascii ''hello''"]
    voice_preference_order [of "[]" "[]" "init_state [] [] True" "ascii ''hello''"]
  by (simp add: voice_eval eval_defs)

subsection \<open>Values that are not strings\<close>

text \<open>
  C10, as the code has it. The guard \<^verbatim>\<open>text?.trim()\<close> protects against \<^verbatim>\<open>null\<close> and
  \<^verbatim>\<open>undefined\<close> only: for a number or a boolean it calls a method that does not
  exist, and the promise of \<^verbatim>\<open>speak\<close> is rejected with a TypeError.
\<close>

theorem speak_number_rejected:
  "speak (JNumber 42) (init_state [] [] True) = Inl TypeError \<and>
   speak (JBoolean True) (init_state [] [] True) = Inl TypeError"
  by (simp add: speak_def)

text \<open>
  C10, amended. For \<^verbatim>\<open>undefined\<close>, \<^verbatim>\<open>null\<close> and every string, \<^verbatim>\<open>speak\<close> raises
  nothing at its entry; for \<^verbatim>\<open>undefined\<close> and \<^verbatim>\<open>null\<close> it returns at once and the
  state is as it was, as for the empty string.
\<close>

theorem speak_nullish_noop:
  "speak JUndefined s = Inr s \<and> speak JNull s = Inr s \<and> speak (JString []) s = Inr s \<and>
   step (CallSpeak JUndefined) s = s \<and> step (CallSpeak JNull) s = s \<and>
   (\<forall>text. \<exists>s'. speak (JString text) s = Inr s')"
  by (simp add: speak_def trim_def Let_def)

end
